theory Spec2Isabelle
  imports Main "HOL-Library.Word" "HOL-Library.Multiset"
begin

section \<open>Values exchanged with the agent\<close>

text \<open>
  Messages of the control channel are JSON documents decoded into Python values. A JSON
  object is kept as the list of its items (a Python dict, looked up with \<open>map_of\<close>).
  Numbers are integers here; floating-point numbers are left out of the model.
\<close>

type_synonym byte = "8 word"

datatype jvalue =
    JNull
  | JBool bool
  | JInt int
  | JStr string
  | JArr "jvalue list"
  | JObj "(string \<times> jvalue) list"

type_synonym pydict = "(string \<times> jvalue) list"

text \<open>\<open>d.get(k)\<close>: the value stored under \<open>k\<close>, Python's \<open>None\<close> when the key is absent.\<close>

definition dict_get :: "pydict \<Rightarrow> string \<Rightarrow> jvalue" where
  "dict_get d k = (case map_of d k of None \<Rightarrow> JNull | Some v \<Rightarrow> v)"

text \<open>\<open>d[k] = v\<close> on a dict kept as its item list: an existing key keeps its place.\<close>

fun dict_set :: "pydict \<Rightarrow> string \<Rightarrow> jvalue \<Rightarrow> pydict" where
  "dict_set [] k v = [(k, v)]"
| "dict_set ((k', v') # d) k v = (if k' = k then (k, v) # d else (k', v') # dict_set d k v)"

text \<open>
  The key under which a value is stored in a Python dict: lists and dicts are unhashable
  (\<open>None\<close> here), and \<open>True\<close>/\<open>False\<close> are the same keys as \<open>1\<close>/\<open>0\<close>.
\<close>

fun dict_key :: "jvalue \<Rightarrow> jvalue option" where
  "dict_key (JArr xs) = None"
| "dict_key (JObj d) = None"
| "dict_key (JBool b) = Some (JInt (if b then 1 else 0))"
| "dict_key v = Some v"

text \<open>The exceptions that the program raises, or that the operations it uses raise.\<close>

datatype pyerror =
    KeyError jvalue
  | TypeError
  | ValueError
  | AttributeError
  | RuntimeError string
  | SystemExit int
  | ProcessNotFoundError

text \<open>A call either returns a value or raises; the state reached so far is kept in both cases.\<close>

datatype 'a res = Returned 'a | Raised pyerror

section \<open>The observable trace\<close>

datatype pyval = PStr string | PInt int | PJson jvalue

datatype event =
    Print "pyval list"
  | FOpen nat string
  | FWrite nat "byte list"
  | FClose nat
  | GetFrontmost
  | Kill int
  | Spawn string
  | SpawnArgv "string list"
  | Attach int nat
  | AttachName string nat
  | AttachNameFailed string
  | Resume int
  | Detach nat
  | CreateScript nat string
  | SetLogHandler nat
  | OnMessageHandler nat
  | Load nat
  | ExpPlugins nat
  | ExpRoot nat
  | ExpData nat
  | ExpDecrypt nat string string
  | ExpArchive nat string string "jvalue list" pydict
  | ExpLaunch nat string
  | ExpGroups nat
  | ExpPathForGroup nat string
  | ExpSkipPkd nat int

section \<open>Task and the state of an IPADump object\<close>

text \<open>
  A Python file object opened for writing: its identity, the path it was opened on, its
  write position and whether \<open>close\<close> was called. Each \<open>Task\<close> owns its file object; the
  bytes live in the file system (\<open>files\<close> below), shared by every file object opened on the
  same path. Writes are modelled unbuffered, and \<open>open\<close>, \<open>write\<close> and \<open>close\<close> of the host
  file system as succeeding.
\<close>

record pyfile =
  fid :: nat
  fpath :: string
  fpos :: nat
  fclosed :: bool

record task =
  t_session :: jvalue
  t_path :: string
  t_size :: jvalue
  t_file :: pyfile

record app =
  app_pid :: int
  app_identifier :: string
  app_name :: string

text \<open>
  The attributes of the \<open>IPADump\<close> object (\<open>app\<close> to \<open>script\<close>), followed by the part of the
  world the object acts on: the file system, the counters that give fresh identities to file
  objects and sessions, and the trace of what was done. \<open>agent_source\<close>, \<open>plugins\<close> and
  \<open>script\<close> are assigned by \<open>load_agent\<close> and \<open>dump\<close> before they are read.
\<close>

record ipadump =
  app :: app
  session :: "nat option"
  tasks :: "jvalue \<rightharpoonup> task"
  output_arg :: "string option"
  verbose :: bool
  opt :: pydict
  ipa_name :: string
  agent_source :: string
  plugins :: "string list"
  script :: nat
  files :: "string \<rightharpoonup> byte list"
  next_fid :: nat
  next_sid :: nat
  trace :: "event list"

definition emit :: "event \<Rightarrow> ipadump \<Rightarrow> ipadump" where
  "emit e s = s\<lparr>trace := trace s @ [e]\<rparr>"

text \<open>\<open>IPADump.__init__\<close>, on a world with the given files and an empty trace.\<close>

definition IPADump_init :: "app \<Rightarrow> string option \<Rightarrow> bool \<Rightarrow> bool \<Rightarrow> (string \<rightharpoonup> byte list) \<Rightarrow> ipadump" where
  "IPADump_init a out v keep_watch fs =
     \<lparr>app = a, session = None, tasks = Map.empty, output_arg = out, verbose = v,
      opt = [(''keepWatch'', JBool keep_watch)], ipa_name = '''', agent_source = '''',
      plugins = [], script = 0, files = fs, next_fid = 0, next_sid = 0, trace = []\<rparr>"

subsection \<open>Task\<close>

text \<open>\<open>open(path, 'wb')\<close>: the file is created or truncated, and a fresh file object returned.\<close>

definition open_wb :: "string \<Rightarrow> ipadump \<Rightarrow> pyfile \<times> ipadump" where
  "open_wb path s =
     (\<lparr>fid = next_fid s, fpath = path, fpos = 0, fclosed = False\<rparr>,
      (emit (FOpen (next_fid s) path) s)\<lparr>files := (files s)(path \<mapsto> []), next_fid := Suc (next_fid s)\<rparr>)"

text \<open>Writing \<open>bs\<close> at position \<open>pos\<close> of a file; a gap before \<open>pos\<close> reads as zero bytes.\<close>

definition write_at :: "nat \<Rightarrow> byte list \<Rightarrow> byte list \<Rightarrow> byte list" where
  "write_at pos bs content =
     take pos (content @ replicate (pos - length content) 0) @ bs @ drop (pos + length bs) content"

definition Task_init :: "jvalue \<Rightarrow> string \<Rightarrow> jvalue \<Rightarrow> ipadump \<Rightarrow> task \<times> ipadump" where
  "Task_init sess path sz s =
     (let (f, s') = open_wb path s
      in (\<lparr>t_session = sess, t_path = path, t_size = sz, t_file = f\<rparr>, s'))"

text \<open>
  \<open>Task.write\<close>: \<open>file.write(data)\<close> raises TypeError when \<open>data\<close> is \<open>None\<close> (a message
  without binary payload) and ValueError on a closed file; no task with a closed file stays
  in the map, so the second branch is never taken by the handlers.
\<close>

definition Task_write :: "task \<Rightarrow> byte list option \<Rightarrow> ipadump \<Rightarrow> task res \<times> ipadump" where
  "Task_write t data s =
     (case data of
        None \<Rightarrow> (Raised TypeError, s)
      | Some bs \<Rightarrow>
          if fclosed (t_file t) then (Raised ValueError, s)
          else
            let f = t_file t;
                content = (case files s (fpath f) of None \<Rightarrow> [] | Some c \<Rightarrow> c)
            in (Returned (t\<lparr>t_file := f\<lparr>fpos := fpos f + length bs\<rparr>\<rparr>),
                (emit (FWrite (fid f) bs) s)
                  \<lparr>files := (files s)(fpath f \<mapsto> write_at (fpos f) bs content)\<rparr>))"

definition Task_close :: "task \<Rightarrow> ipadump \<Rightarrow> task \<times> ipadump" where
  "Task_close t s = (t\<lparr>t_file := (t_file t)\<lparr>fclosed := True\<rparr>\<rparr>, emit (FClose (fid (t_file t))) s)"

definition Task_finish :: "task \<Rightarrow> ipadump \<Rightarrow> task \<times> ipadump" where
  "Task_finish t s = Task_close t s"

subsection \<open>The download handlers\<close>

text \<open>
  \<open>self.tasks[session] = Task(session, self.ipa_name, size)\<close>: the task is built (and the
  file opened) before the store into the dict, which raises TypeError on an unhashable key.
\<close>

definition on_download_start :: "jvalue \<Rightarrow> jvalue \<Rightarrow> ipadump \<Rightarrow> unit res \<times> ipadump" where
  "on_download_start sess sz s =
     (let (t, s1) = Task_init sess (ipa_name s) sz s
      in case dict_key sess of
           None \<Rightarrow> (Raised TypeError, s1)
         | Some k \<Rightarrow> (Returned (), s1\<lparr>tasks := (tasks s1)(k \<mapsto> t)\<rparr>))"

text \<open>\<open>self.tasks[session]\<close>: TypeError on an unhashable key, KeyError on a missing one.\<close>

definition tasks_lookup :: "jvalue \<Rightarrow> ipadump \<Rightarrow> (jvalue \<times> task) res" where
  "tasks_lookup sess s =
     (case dict_key sess of
        None \<Rightarrow> Raised TypeError
      | Some k \<Rightarrow> (case tasks s k of None \<Rightarrow> Raised (KeyError sess) | Some t \<Rightarrow> Returned (k, t)))"

definition on_download_data :: "jvalue \<Rightarrow> byte list option \<Rightarrow> ipadump \<Rightarrow> unit res \<times> ipadump" where
  "on_download_data sess data s =
     (case tasks_lookup sess s of
        Raised e \<Rightarrow> (Raised e, s)
      | Returned (k, t) \<Rightarrow>
          (case Task_write t data s of
             (Raised e, s1) \<Rightarrow> (Raised e, s1)
           | (Returned t', s1) \<Rightarrow> (Returned (), s1\<lparr>tasks := (tasks s1)(k \<mapsto> t')\<rparr>)))"

definition close_session :: "jvalue \<Rightarrow> ipadump \<Rightarrow> unit res \<times> ipadump" where
  "close_session sess s =
     (case tasks_lookup sess s of
        Raised e \<Rightarrow> (Raised e, s)
      | Returned (k, t) \<Rightarrow>
          (let (t', s1) = Task_finish t s
           in (Returned (), s1\<lparr>tasks := (tasks s1)(k := None)\<rparr>)))"

definition on_download_finish :: "jvalue \<Rightarrow> ipadump \<Rightarrow> unit res \<times> ipadump" where
  "on_download_finish sess s = close_session sess s"

definition on_download_error :: "jvalue \<Rightarrow> ipadump \<Rightarrow> unit res \<times> ipadump" where
  "on_download_error sess s = close_session sess s"

subsection \<open>The message router\<close>

datatype handler = OnDownloadStart | OnDownloadData | OnDownloadFinish | OnDownloadError

text \<open>
  \<open>method_mapping[payload.get('event')]\<close>: a dict with the four string keys; the subscript
  raises TypeError on an unhashable key and KeyError on every other value.
\<close>

definition method_mapping :: "jvalue \<Rightarrow> pyerror + handler" where
  "method_mapping ev =
     (case dict_key ev of
        None \<Rightarrow> Inl TypeError
      | Some k \<Rightarrow>
          if k = JStr ''start'' then Inr OnDownloadStart
          else if k = JStr ''data'' then Inr OnDownloadData
          else if k = JStr ''end'' then Inr OnDownloadFinish
          else if k = JStr ''error'' then Inr OnDownloadError
          else Inl (KeyError ev))"

text \<open>
  \<open>method(data=data, **payload)\<close>: the call raises TypeError when the payload has a key
  \<open>data\<close> or \<open>self\<close> (a second value for that argument) and when it lacks a positional
  argument of the handler (\<open>session\<close>, and \<open>size\<close> for start); every other item of the
  payload goes to \<open>**kwargs\<close> and is ignored.
\<close>

definition call_method :: "handler \<Rightarrow> byte list option \<Rightarrow> pydict \<Rightarrow> ipadump \<Rightarrow> unit res \<times> ipadump" where
  "call_method method data payload s =
     (if map_of payload ''data'' = None \<and> map_of payload ''self'' = None then
        (case map_of payload ''session'' of
           None \<Rightarrow> (Raised TypeError, s)
         | Some sess \<Rightarrow>
             (case method of
                OnDownloadStart \<Rightarrow>
                  (case map_of payload ''size'' of
                     None \<Rightarrow> (Raised TypeError, s)
                   | Some sz \<Rightarrow> on_download_start sess sz s)
              | OnDownloadData \<Rightarrow> on_download_data sess data s
              | OnDownloadFinish \<Rightarrow> on_download_finish sess s
              | OnDownloadError \<Rightarrow> on_download_error sess s))
      else (Raised TypeError, s))"

text \<open>
  \<open>on_message\<close>. \<open>msg.get('payload', {})\<close> is a dict for the messages the agent sends; on
  any other value \<open>payload.get\<close> raises AttributeError. On subject finish,
  \<open>self.session.detach()\<close> reads the attribute \<open>session\<close> of the object, which raises
  AttributeError while that attribute is \<open>None\<close>.
\<close>

definition on_message :: "pydict \<Rightarrow> byte list option \<Rightarrow> ipadump \<Rightarrow> unit res \<times> ipadump" where
  "on_message msg data s =
     (if dict_get msg ''type'' \<noteq> JStr ''send''
      then (Returned (), emit (Print [PStr ''unknown message:'', PJson (JObj msg)]) s)
      else
        case (case map_of msg ''payload'' of None \<Rightarrow> JObj [] | Some p \<Rightarrow> p) of
          JObj payload \<Rightarrow>
            (let subject = dict_get payload ''subject'' in
             if subject = JStr ''download'' then
               (case method_mapping (dict_get payload ''event'') of
                  Inl e \<Rightarrow> (Raised e, s)
                | Inr method \<Rightarrow> call_method method data payload s)
             else if subject = JStr ''finish'' then
               (let s1 = emit (Print [PStr ''bye'']) s in
                case session s1 of
                  None \<Rightarrow> (Raised AttributeError, s1)
                | Some sid \<Rightarrow> (Raised (SystemExit 0), emit (Detach sid) s1))
             else
               (Returned (),
                emit (Print [PJson (JObj msg)]) (emit (Print [PStr ''unknown message'']) s)))
        | _ \<Rightarrow> (Raised AttributeError, s))"

text \<open>
  Delivery of a sequence of messages, each with its binary payload, to \<open>on_message\<close>: the
  outcome of every call is recorded, and the next message is handled in the state the
  previous call left.
\<close>

fun deliver :: "(pydict \<times> byte list option) list \<Rightarrow> ipadump \<Rightarrow> unit res list \<times> ipadump" where
  "deliver [] s = ([], s)"
| "deliver ((msg, data) # rest) s =
     (let (r, s1) = on_message msg data s;
          (rs, s2) = deliver rest s1
      in (r # rs, s2))"

text \<open>The messages of the download protocol, as the agent sends them.\<close>

definition download_payload :: "string \<Rightarrow> jvalue \<Rightarrow> pydict" where
  "download_payload ev key = [(''subject'', JStr ''download''), (''event'', JStr ev), (''session'', key)]"

definition send_msg :: "pydict \<Rightarrow> pydict" where
  "send_msg payload = [(''type'', JStr ''send''), (''payload'', JObj payload)]"

definition start_msg :: "jvalue \<Rightarrow> jvalue \<Rightarrow> pydict" where
  "start_msg key sz = send_msg (download_payload ''start'' key @ [(''size'', sz)])"

definition data_msg :: "jvalue \<Rightarrow> pydict" where
  "data_msg key = send_msg (download_payload ''data'' key)"

definition end_msg :: "jvalue \<Rightarrow> pydict" where
  "end_msg key = send_msg (download_payload ''end'' key)"

definition error_msg :: "jvalue \<Rightarrow> pydict" where
  "error_msg key = send_msg (download_payload ''error'' key)"

definition finish_msg :: pydict where
  "finish_msg = send_msg [(''subject'', JStr ''finish'')]"


section \<open>The device, the agents and the dump\<close>

text \<open>
  A plugin as \<open>dump_with_plugins\<close> records it. Sessions are numbered in the order in which
  \<open>attach\<close> returns them, and the script created on a session carries the session's number,
  so two plugin records are never equal.
\<close>

record plugin =
  pl_id :: string
  pl_session :: nat
  pl_pid :: int
  pl_script :: nat

text \<open>
  What the program is run against: the answers of the device (\<open>dev_\<close>, \<open>pkd_\<close>), the
  answers of the agent's exports on the script with the given number (\<open>exp_\<close>), and the two
  choices that Python leaves to the implementation of its sets: the element that \<open>pop\<close> takes
  from a non-empty set and the order in which a \<open>for\<close> loop visits one. \<open>pkd_running\<close> says
  whether the first \<open>attach('pkd')\<close> finds the daemon, \<open>pkd_started\<close> whether the retry does.
  Apart from that first attach, calls to the device and the agent are modelled as returning.
\<close>

record env =
  dev_frontmost :: "int option"
  dev_spawn :: "string \<Rightarrow> int"
  dev_spawn_argv :: "string list \<Rightarrow> int"
  pkd_running :: bool
  pkd_started :: bool
  exp_plugins :: "nat \<Rightarrow> string list"
  exp_root :: "nat \<Rightarrow> string"
  exp_data :: "nat \<Rightarrow> string"
  exp_decrypt :: "nat \<Rightarrow> string \<Rightarrow> string \<Rightarrow> jvalue list"
  exp_launch :: "nat \<Rightarrow> string \<Rightarrow> int"
  exp_groups :: "nat \<Rightarrow> string list"
  exp_path_for_group :: "nat \<Rightarrow> string \<Rightarrow> string"
  set_pop :: "string set \<Rightarrow> string"
  set_iter :: "plugin set \<Rightarrow> plugin list"

text \<open>\<open>on_console\<close>, the log handler defined inside \<open>dump\<close>.\<close>

definition on_console :: "string \<Rightarrow> string \<Rightarrow> ipadump \<Rightarrow> ipadump" where
  "on_console level text s =
     (if \<not> verbose s \<and> level = ''info'' then s
      else emit (Print [PStr (''['' @ level @ '']''), PStr text]) s)"

text \<open>\<open>self.device.attach(pid)\<close>: a fresh session.\<close>

definition device_attach :: "int \<Rightarrow> ipadump \<Rightarrow> nat \<times> ipadump" where
  "device_attach pid s =
     (next_sid s, (emit (Attach pid (next_sid s)) s)\<lparr>next_sid := Suc (next_sid s)\<rparr>)"

text \<open>
  The first part of \<open>dump\<close>, up to the session of the target application: \<open>bool(pid)\<close> is
  \<open>pid \<noteq> 0\<close>, and \<open>front\<close> is true when there is a frontmost application.
\<close>

definition dump_attach :: "env \<Rightarrow> ipadump \<Rightarrow> nat \<times> ipadump" where
  "dump_attach env s =
     (let s0 = on_console ''info'' ''attaching to target'' s;
          pid = app_pid (app s0);
          spawn0 = (pid = 0);
          s1 = emit GetFrontmost s0;
          front = dev_frontmost env;
          (spawn, s2) =
            (if pid \<noteq> 0 \<and> front \<noteq> None \<and> front \<noteq> Some pid then (True, emit (Kill pid) s1)
             else (spawn0, s1))
      in if spawn then
           (let pid' = dev_spawn env (app_identifier (app s2));
                s3 = emit (Spawn (app_identifier (app s2))) s2;
                (sess, s4) = device_attach pid' s3
            in (sess, emit (Resume pid') s4))
         else device_attach pid s2)"

text \<open>The \<open>try\<close> block that opens \<open>dump_with_plugins\<close>: attach to pkd, with one retry.\<close>

definition attach_pkd :: "env \<Rightarrow> ipadump \<Rightarrow> nat res \<times> ipadump" where
  "attach_pkd env s =
     (if pkd_running env
      then (Returned (next_sid s), (emit (AttachName ''pkd'' (next_sid s)) s)\<lparr>next_sid := Suc (next_sid s)\<rparr>)
      else
        (let s1 = emit (AttachNameFailed ''pkd'') s;
             argv = [''/bin/launchctl'', ''start'', ''com.apple.pluginkit.pkd''];
             pid = dev_spawn_argv env argv;
             s2 = emit (SpawnArgv argv) s1;
             s3 = emit (Resume pid) s2
         in if pkd_started env
            then (Returned (next_sid s3), (emit (AttachName ''pkd'' (next_sid s3)) s3)\<lparr>next_sid := Suc (next_sid s3)\<rparr>)
            else (Raised ProcessNotFoundError, emit (AttachNameFailed ''pkd'') s3)))"

text \<open>The loop \<open>for identifier in self.plugins\<close>.\<close>

fun launch_plugins ::
  "env \<Rightarrow> string list \<Rightarrow> plugin set \<Rightarrow> string set list \<Rightarrow> ipadump \<Rightarrow> plugin set \<times> string set list \<times> ipadump" where
  "launch_plugins env [] spawned all_groups s = (spawned, all_groups, s)"
| "launch_plugins env (identifier # rest) spawned all_groups s =
     (let pid = exp_launch env (script s) identifier;
          s1 = emit (ExpLaunch (script s) identifier) s;
          s2 = emit (Print [PStr ''plugin '', PStr identifier, PStr '', pid='', PInt pid]) s1;
          (sess, s3) = device_attach pid s2;
          s4 = emit (CreateScript sess (agent_source s3)) s3;
          s5 = emit (Load sess) s4;
          plugin = \<lparr>pl_id = identifier, pl_session = sess, pl_pid = pid, pl_script = sess\<rparr>;
          s6 = emit (ExpGroups sess) s5
      in launch_plugins env rest (insert plugin spawned) (all_groups @ [set (exp_groups env sess)]) s6)"

text \<open>\<open>set.intersection(*all_groups)\<close>: TypeError without an argument.\<close>

definition set_intersection :: "string set list \<Rightarrow> string set res" where
  "set_intersection gs =
     (case gs of [] \<Rightarrow> Raised TypeError | g # rest \<Rightarrow> Returned (fold (\<lambda>x acc. acc \<inter> x) rest g))"

text \<open>
  \<open>group = set.intersection(*all_groups).pop()\<close> and the check that follows it: \<open>pop\<close> on
  an empty set raises \<open>KeyError('pop from an empty set')\<close>, and \<open>not group\<close> holds of the
  empty string.
\<close>

definition resolve_group :: "env \<Rightarrow> string set list \<Rightarrow> string res" where
  "resolve_group env all_groups =
     (case set_intersection all_groups of
        Raised e \<Rightarrow> Raised e
      | Returned common \<Rightarrow>
          if common = {} then Raised (KeyError (JStr ''pop from an empty set''))
          else
            (let grp = set_pop env common
             in if grp = []
                then Raised (RuntimeError
                  ''App includes extension, but no valid app group found. Please file a bug to Github'')
                else Returned grp))"

text \<open>The loop \<open>for plugin in spawned\<close>, over the plugins in the order the set yields them.\<close>

fun decrypt_plugins ::
  "env \<Rightarrow> string \<Rightarrow> string \<Rightarrow> plugin list \<Rightarrow> jvalue list \<Rightarrow> ipadump \<Rightarrow> jvalue list \<times> ipadump" where
  "decrypt_plugins env root container [] decrypted s = (decrypted, s)"
| "decrypt_plugins env root container (plugin # rest) decrypted s =
     (let decrypted' = decrypted @ exp_decrypt env (pl_script plugin) root container;
          s1 = emit (ExpDecrypt (pl_script plugin) root container) s;
          s2 = emit (Detach (pl_session plugin)) s1;
          s3 = emit (Kill (pl_pid plugin)) s2
      in decrypt_plugins env root container rest decrypted' s3)"

definition dump_with_plugins :: "env \<Rightarrow> ipadump \<Rightarrow> unit res \<times> ipadump" where
  "dump_with_plugins env s =
     (case attach_pkd env s of
        (Raised e, s1) \<Rightarrow> (Raised e, s1)
      | (Returned pkd, s1) \<Rightarrow>
          (let s2 = emit (CreateScript pkd (agent_source s1)) s1;
               s3 = emit (Load pkd) s2;
               s4 = emit (ExpSkipPkd pkd (app_pid (app s3))) s3;
               (spawned, all_groups, s5) = launch_plugins env (plugins s4) {} [] s4;
               s6 = emit (Detach pkd) s5
           in case resolve_group env all_groups of
                Raised e \<Rightarrow> (Raised e, s6)
              | Returned grp \<Rightarrow>
                  (let root = exp_root env (script s6);
                       s7 = emit (ExpRoot (script s6)) s6;
                       container = exp_path_for_group env (script s7) grp;
                       s8 = emit (ExpPathForGroup (script s7) grp) s7;
                       s9 = (if verbose s8
                             then emit (Print [PStr ''root:'', PStr root])
                                    (emit (Print [PStr ''container:'', PStr container])
                                      (emit (Print [PStr ''group:'', PStr grp]) s8))
                             else s8);
                       s10 = s9\<lparr>opt := dict_set (opt s9) ''dest'' (JStr container)\<rparr>;
                       decrypted0 = exp_decrypt env (script s10) root container;
                       s11 = emit (ExpDecrypt (script s10) root container) s10;
                       (decrypted, s12) =
                         decrypt_plugins env root container (set_iter env spawned) decrypted0 s11
                   in (Returned (),
                       emit (ExpArchive (script s12) root container decrypted (opt s12)) s12))))"

definition dump :: "env \<Rightarrow> ipadump \<Rightarrow> unit res \<times> ipadump" where
  "dump env s =
     (let (sess, s1) = dump_attach env s;
          s2 = emit (CreateScript sess (agent_source s1)) s1;
          s3 = emit (SetLogHandler sess) s2;
          s4 = emit (OnMessageHandler sess) s3;
          s5 = emit (Load sess) s4;
          s6 = (emit (ExpPlugins sess) s5)\<lparr>plugins := exp_plugins env sess\<rparr>;
          s7 = s6\<lparr>script := sess\<rparr>
      in if plugins s7 \<noteq> [] then
           (case dump_with_plugins env s7 of
              (Raised e, s8) \<Rightarrow> (Raised e, s8)
            | (Returned u, s8) \<Rightarrow> (Returned (), emit (Detach sess) s8))
         else
           (let root = exp_root env (script s7);
                s8 = emit (ExpRoot (script s7)) s7;
                container = exp_data env (script s8) @ ''/tmp'';
                s9 = emit (ExpData (script s8)) s8;
                decrypted = exp_decrypt env (script s9) root container;
                s10 = emit (ExpDecrypt (script s9) root container) s9;
                s11 = emit (ExpArchive (script s10) root container decrypted (opt s10)) s10
            in (Returned (), emit (Detach sess) s11)))"


section \<open>Vocabulary of the properties\<close>

text \<open>The events that a call adds to the trace.\<close>

definition new_events :: "ipadump \<Rightarrow> ipadump \<Rightarrow> event list" where
  "new_events s s' = drop (length (trace s)) (trace s')"

fun is_print :: "event \<Rightarrow> bool" where
  "is_print (Print xs) = True"
| "is_print e = False"

fun is_kill :: "event \<Rightarrow> bool" where
  "is_kill (Kill p) = True"
| "is_kill e = False"

fun is_attach :: "event \<Rightarrow> bool" where
  "is_attach (Attach p n) = True"
| "is_attach (AttachName x n) = True"
| "is_attach e = False"

fun is_decrypt :: "event \<Rightarrow> bool" where
  "is_decrypt (ExpDecrypt n r c) = True"
| "is_decrypt e = False"

fun is_archive :: "event \<Rightarrow> bool" where
  "is_archive (ExpArchive n r c m d) = True"
| "is_archive e = False"

text \<open>The exports that only the plugin path uses: launch, groups and path_for_group.\<close>

fun is_plugin_call :: "event \<Rightarrow> bool" where
  "is_plugin_call (ExpLaunch n i) = True"
| "is_plugin_call (ExpGroups n) = True"
| "is_plugin_call (ExpPathForGroup n g) = True"
| "is_plugin_call e = False"

text \<open>What happens to a container once a group is chosen: path_for_group, decrypt, archive.\<close>

fun uses_group :: "event \<Rightarrow> bool" where
  "uses_group (ExpPathForGroup n g) = True"
| "uses_group (ExpDecrypt n r c) = True"
| "uses_group (ExpArchive n r c m d) = True"
| "uses_group e = False"

text \<open>The events of the assembly of the dump: decrypt, detach, kill and archive.\<close>

fun is_assembly :: "event \<Rightarrow> bool" where
  "is_assembly (ExpDecrypt n r c) = True"
| "is_assembly (ExpArchive n r c m d) = True"
| "is_assembly (Detach n) = True"
| "is_assembly (Kill p) = True"
| "is_assembly e = False"

text \<open>
  The plugin records that the launch loop builds from the identifiers, in launch order, when
  it starts on script \<open>scr\<close> with \<open>n\<close> the next free session number; the events of the loop;
  and the group sets it collects when \<open>dump_with_plugins\<close> starts in state \<open>s\<close> (the session of
  pkd takes the number \<open>next_sid s\<close>).
\<close>

fun launch_records :: "env \<Rightarrow> nat \<Rightarrow> nat \<Rightarrow> string list \<Rightarrow> plugin list" where
  "launch_records env scr n [] = []"
| "launch_records env scr n (i # rest) =
     \<lparr>pl_id = i, pl_session = n, pl_pid = exp_launch env scr i, pl_script = n\<rparr>
       # launch_records env scr (Suc n) rest"

fun launch_events :: "string \<Rightarrow> nat \<Rightarrow> plugin list \<Rightarrow> event list" where
  "launch_events src scr [] = []"
| "launch_events src scr (p # rest) =
     [ExpLaunch scr (pl_id p),
      Print [PStr ''plugin '', PStr (pl_id p), PStr '', pid='', PInt (pl_pid p)],
      Attach (pl_pid p) (pl_session p), CreateScript (pl_session p) src, Load (pl_session p),
      ExpGroups (pl_session p)] @ launch_events src scr rest"

definition launched :: "env \<Rightarrow> ipadump \<Rightarrow> plugin list" where
  "launched env s = launch_records env (script s) (Suc (next_sid s)) (plugins s)"

definition plugin_group_sets :: "env \<Rightarrow> ipadump \<Rightarrow> string set list" where
  "plugin_group_sets env s = map (\<lambda>p. set (exp_groups env (pl_script p))) (launched env s)"

definition common_groups :: "env \<Rightarrow> ipadump \<Rightarrow> string set" where
  "common_groups env s = \<Inter> (set (plugin_group_sets env s))"

text \<open>The events that decrypt, detach and kill one plugin.\<close>

definition plugin_teardown :: "string \<Rightarrow> string \<Rightarrow> plugin \<Rightarrow> event list" where
  "plugin_teardown root container p =
     [ExpDecrypt (pl_script p) root container, Detach (pl_session p), Kill (pl_pid p)]"

text \<open>
  The tasks in flight are well formed: each holds an open file object created earlier, on
  the destination path of the run, and no two tasks hold the same file object.
\<close>

definition task_fids :: "ipadump \<Rightarrow> nat set" where
  "task_fids s = {fid (t_file t) | t. t \<in> ran (tasks s)}"

definition tasks_wf :: "ipadump \<Rightarrow> bool" where
  "tasks_wf s =
     ((\<forall>k t. tasks s k = Some t \<longrightarrow>
         fid (t_file t) < next_fid s \<and> t_path t = ipa_name s \<and> fpath (t_file t) = ipa_name s
         \<and> \<not> fclosed (t_file t)) \<and>
      (\<forall>k k' t t'. tasks s k = Some t \<longrightarrow> tasks s k' = Some t' \<longrightarrow>
         fid (t_file t) = fid (t_file t') \<longrightarrow> k = k'))"

text \<open>What every call of a handler keeps, used as the step of the invariants below.\<close>

definition step_ok :: "ipadump \<Rightarrow> ipadump \<Rightarrow> bool" where
  "step_ok s s' =
     ((tasks_wf s \<longrightarrow> tasks_wf s') \<and> next_fid s \<le> next_fid s' \<and> ipa_name s' = ipa_name s \<and>
      session s' = session s \<and>
      (\<exists>es. trace s' = trace s @ es \<and> (\<forall>h. FClose h \<in> set es \<longrightarrow> h \<in> task_fids s)) \<and>
      (\<forall>h. h < next_fid s \<longrightarrow> h \<notin> task_fids s \<longrightarrow> h \<notin> task_fids s'))"

subsection \<open>Example runs\<close>

definition ex_app :: app where
  "ex_app = \<lparr>app_pid = 41, app_identifier = ''com.example.app'', app_name = ''Example''\<rparr>"

text \<open>The object as \<open>run\<close> hands it to \<open>dump\<close>: agent loaded, output name chosen.\<close>

definition ex_state :: ipadump where
  "ex_state = (IPADump_init ex_app None False False Map.empty)
     \<lparr>ipa_name := ''Example.ipa'', agent_source := ''agent''\<rparr>"

definition ex_env :: env where
  "ex_env =
     \<lparr>dev_frontmost = Some 7, dev_spawn = (\<lambda>i. 100), dev_spawn_argv = (\<lambda>a. 200),
      pkd_running = True, pkd_started = True,
      exp_plugins = (\<lambda>n. []), exp_root = (\<lambda>n. ''/app''), exp_data = (\<lambda>n. ''/data''),
      exp_decrypt = (\<lambda>n r c. [JInt (int n)]),
      exp_launch = (\<lambda>n i. if i = ''ext.x'' then 301 else 302),
      exp_groups = (\<lambda>n. [''group.a'']),
      exp_path_for_group = (\<lambda>n g. ''/shared/'' @ g),
      set_pop = (\<lambda>S. ''group.a''), set_iter = (\<lambda>S. [])\<rparr>"

definition ex_plugin_x :: plugin where
  "ex_plugin_x = \<lparr>pl_id = ''ext.x'', pl_session = 2, pl_pid = 301, pl_script = 2\<rparr>"

definition ex_plugin_y :: plugin where
  "ex_plugin_y = \<lparr>pl_id = ''ext.y'', pl_session = 3, pl_pid = 302, pl_script = 3\<rparr>"

text \<open>The state in which \<open>dump\<close> enters \<open>dump_with_plugins\<close>: host script 0, two plugins.\<close>

definition ex_plugin_state :: ipadump where
  "ex_plugin_state = ex_state\<lparr>plugins := [''ext.x'', ''ext.y''], script := 0, next_sid := 1\<rparr>"

text \<open>Two plugins with the one common group; the set of plugins is visited y first.\<close>

definition ex_env_yx :: env where
  "ex_env_yx = ex_env\<lparr>set_iter := (\<lambda>S. [ex_plugin_y, ex_plugin_x])\<rparr>"

text \<open>Two plugins that share two groups, of which \<open>pop\<close> takes group.a.\<close>

definition ex_env_two_groups :: env where
  "ex_env_two_groups =
     ex_env_yx\<lparr>exp_groups := (\<lambda>n. [''group.a'', ''group.b''])\<rparr>"

text \<open>Two plugins with no group in common.\<close>

definition ex_env_disjoint :: env where
  "ex_env_disjoint =
     ex_env_yx\<lparr>exp_groups := (\<lambda>n. if n = 2 then [''group.a''] else [''group.b''])\<rparr>"

text \<open>The state after a first start on stream \<open>s1\<close>.\<close>

definition ex_started :: ipadump where
  "ex_started = snd (on_message (start_msg (JStr ''s1'') (JInt 1024)) None ex_state)"

section \<open>Lemmas on the download handlers\<close>

lemma dict_key_send [simp]: "dict_key (JStr x) = Some (JStr x)"
  by simp



lemma on_message_start:
  assumes "dict_key key = Some k"
  shows "on_message (start_msg key sz) d s =
     (Returned (),
      s\<lparr>trace := trace s @ [FOpen (next_fid s) (ipa_name s)],
        files := (files s)(ipa_name s \<mapsto> []),
        next_fid := Suc (next_fid s),
        tasks := (tasks s)(k \<mapsto> \<lparr>t_session = key, t_path = ipa_name s, t_size = sz,
           t_file = \<lparr>fid = next_fid s, fpath = ipa_name s, fpos = 0, fclosed = False\<rparr>\<rparr>)\<rparr>)"
  using assms
  by (simp add: on_message_def start_msg_def send_msg_def download_payload_def dict_get_def
      method_mapping_def call_method_def on_download_start_def Task_init_def open_wb_def emit_def)



lemma on_message_missing:
  assumes "dict_key key = Some k" "tasks s k = None"
  shows "on_message (data_msg key) d s = (Raised (KeyError key), s)"
    and "on_message (end_msg key) d s = (Raised (KeyError key), s)"
    and "on_message (error_msg key) d s = (Raised (KeyError key), s)"
  using assms
  by (simp_all add: on_message_def data_msg_def end_msg_def error_msg_def send_msg_def download_payload_def dict_get_def
      method_mapping_def call_method_def on_download_data_def on_download_finish_def on_download_error_def close_session_def
      tasks_lookup_def Task_finish_def Task_close_def emit_def Let_def)

lemma write_at_end [simp]: "write_at (length c) bs c = c @ bs"
  by (simp add: write_at_def)




lemma step_ok_refl: "step_ok s s"
  by (simp add: step_ok_def)

lemma step_ok_emit: "\<forall>h. e \<noteq> FClose h \<Longrightarrow> step_ok s (emit e s)"
  by (auto simp: step_ok_def emit_def tasks_wf_def task_fids_def)

lemma step_ok_emit2: "\<forall>h. e \<noteq> FClose h \<Longrightarrow> \<forall>h. e' \<noteq> FClose h \<Longrightarrow> step_ok s (emit e' (emit e s))"
  by (auto simp: step_ok_def emit_def tasks_wf_def task_fids_def)

lemma task_fids_iff: "h \<in> task_fids s \<longleftrightarrow> (\<exists>k t. tasks s k = Some t \<and> fid (t_file t) = h)"
  by (auto simp: task_fids_def ran_def)

lemma start_step: "step_ok s (snd (on_download_start sess sz s))"
  unfolding step_ok_def
  by (auto simp: on_download_start_def Task_init_def open_wb_def emit_def tasks_wf_def task_fids_iff
      less_Suc_eq split: option.splits if_splits) (blast | metis less_irrefl_nat)+

lemma data_step: "step_ok s (snd (on_download_data sess data s))"
  unfolding step_ok_def
  by (auto simp: on_download_data_def tasks_lookup_def Task_write_def emit_def tasks_wf_def task_fids_iff Let_def
      split: option.splits if_splits res.splits prod.splits)

lemma close_step: "step_ok s (snd (close_session sess s))"
  unfolding step_ok_def
  by (auto simp: close_session_def tasks_lookup_def Task_finish_def Task_close_def emit_def tasks_wf_def task_fids_iff Let_def
      split: option.splits if_splits res.splits prod.splits)

lemma call_method_step: "step_ok s (snd (call_method m data payload s))"
  by (auto simp: call_method_def step_ok_refl start_step data_step close_step
      on_download_finish_def on_download_error_def split: option.splits handler.splits)

lemma on_message_step: "step_ok s (snd (on_message msg data s))"
  by (simp add: on_message_def Let_def step_ok_refl step_ok_emit step_ok_emit2 call_method_step
      split: option.split jvalue.split sum.split)


lemma snd_deliver_Cons:
  "snd (deliver ((msg, data) # ms) s) = snd (deliver ms (snd (on_message msg data s)))"
  by (simp split: prod.splits)




lemma deliver_session: "session (snd (deliver ms s)) = session s"
proof (induction ms arbitrary: s)
  case Nil
  then show ?case by simp
next
  case (Cons m ms)
  obtain msg data where m: "m = (msg, data)" by (cases m)
  have "session (snd (on_message msg data s)) = session s"
    using on_message_step [of s msg data] by (simp add: step_ok_def)
  then show ?case using Cons.IH [of "snd (on_message msg data s)"]
    unfolding m snd_deliver_Cons by simp
qed

lemma new_events_append [simp]: "trace s' = trace s @ es \<Longrightarrow> new_events s s' = es"
  by (simp add: new_events_def)

section \<open>Lemmas on the dump\<close>

lemma emit_fields [simp]:
  "trace (emit e s) = trace s @ [e]"
  "session (emit e s) = session s"
  "script (emit e s) = script s"
  "plugins (emit e s) = plugins s"
  "next_sid (emit e s) = next_sid s"
  "agent_source (emit e s) = agent_source s"
  "verbose (emit e s) = verbose s"
  "opt (emit e s) = opt s"
  "app (emit e s) = app s"
  by (simp_all add: emit_def)

lemma launch_plugins_eq:
  "launch_plugins env ids sp gs s =
     (sp \<union> set (launch_records env (script s) (next_sid s) ids),
      gs @ map (\<lambda>p. set (exp_groups env (pl_script p))) (launch_records env (script s) (next_sid s) ids),
      s\<lparr>trace := trace s @ launch_events (agent_source s) (script s)
                            (launch_records env (script s) (next_sid s) ids),
        next_sid := next_sid s + length ids\<rparr>)"
proof (induction ids arbitrary: sp gs s)
  case Nil
  then show ?case by simp
next
  case (Cons i ids)
  show ?case
    by (simp add: Cons.IH device_attach_def Let_def emit_def)
qed

lemma decrypt_plugins_eq:
  "decrypt_plugins env r c ps d s =
     (d @ concat (map (\<lambda>p. exp_decrypt env (pl_script p) r c) ps),
      s\<lparr>trace := trace s @ concat (map (plugin_teardown r c) ps)\<rparr>)"
proof (induction ps arbitrary: d s)
  case Nil
  then show ?case by simp
next
  case (Cons p ps)
  show ?case
    by (simp add: Cons.IH Let_def emit_def plugin_teardown_def)
qed

lemma filter_launch_events [simp]:
  "filter is_assembly (launch_events src scr ps) = []"
  "filter uses_group (launch_events src scr ps) = []"
  "filter is_decrypt (launch_events src scr ps) = []"
  "filter is_archive (launch_events src scr ps) = []"
  by (induction ps) simp_all

lemma filter_teardown [simp]:
  "filter is_assembly (concat (map (plugin_teardown r c) ps)) = concat (map (plugin_teardown r c) ps)"
  "filter is_archive (concat (map (plugin_teardown r c) ps)) = []"
  by (induction ps) (simp_all add: plugin_teardown_def)

lemma launch_records_sessions:
  "map pl_session (launch_records env scr n ids) = [n..<n + length ids]"
  by (induction ids arbitrary: n) (simp_all add: upt_rec)

lemma launch_records_distinct: "distinct (launch_records env scr n ids)"
proof -
  have "distinct (map pl_session (launch_records env scr n ids))"
    by (simp add: launch_records_sessions)
  then show ?thesis by (simp add: distinct_map)
qed

lemma set_intersection_Inter:
  "gs \<noteq> [] \<Longrightarrow> set_intersection gs = Returned (\<Inter> (set gs))"
proof -
  have f: "fold (\<lambda>x acc. acc \<inter> x) rest g = g \<inter> \<Inter> (set rest)" for rest and g :: "string set"
    by (induction rest arbitrary: g) auto
  assume "gs \<noteq> []"
  then show ?thesis
    by (cases gs) (simp_all add: set_intersection_def f)
qed

lemma resolve_group_cases:
  assumes "gs \<noteq> []"
  shows "resolve_group env gs =
     (if \<Inter> (set gs) = {} then Raised (KeyError (JStr ''pop from an empty set''))
      else if set_pop env (\<Inter> (set gs)) = []
      then Raised (RuntimeError
             ''App includes extension, but no valid app group found. Please file a bug to Github'')
      else Returned (set_pop env (\<Inter> (set gs))))"
  using assms by (simp add: resolve_group_def set_intersection_Inter Let_def)


lemma attach_pkd_ok:
  assumes "pkd_running env \<or> pkd_started env"
  shows "\<exists>es. filter is_assembly es = [] \<and> filter uses_group es = [] \<and>
           attach_pkd env s =
             (Returned (next_sid s), s\<lparr>trace := trace s @ es, next_sid := Suc (next_sid s)\<rparr>)"
proof (cases "pkd_running env")
  case True
  show ?thesis
    by (rule exI [of _ "[AttachName ''pkd'' (next_sid s)]"])
       (simp add: attach_pkd_def True emit_def)
next
  case False
  with assms have st: "pkd_started env" by simp
  show ?thesis
    by (rule exI [of _ "[AttachNameFailed ''pkd'',
           SpawnArgv [''/bin/launchctl'', ''start'', ''com.apple.pluginkit.pkd''],
           Resume (dev_spawn_argv env [''/bin/launchctl'', ''start'', ''com.apple.pluginkit.pkd'']),
           AttachName ''pkd'' (next_sid s)]"])
       (simp add: attach_pkd_def False st emit_def Let_def)
qed

lemma dump_with_plugins_raised:
  assumes pkd: "pkd_running env \<or> pkd_started env"
    and g: "resolve_group env (plugin_group_sets env s) = Raised e"
  shows "fst (dump_with_plugins env s) = Raised e"
    and "filter uses_group (new_events s (snd (dump_with_plugins env s))) = []"
proof -
  from attach_pkd_ok [OF pkd, of s] obtain es where
    es: "filter is_assembly es = []" "filter uses_group es = []"
    and a: "attach_pkd env s =
             (Returned (next_sid s), s\<lparr>trace := trace s @ es, next_sid := Suc (next_sid s)\<rparr>)"
    by blast
  have g': "resolve_group env
      (map (\<lambda>p. set (exp_groups env (pl_script p)))
         (launch_records env (script s) (Suc (next_sid s)) (plugins s))) = Raised e"
    using g by (simp add: plugin_group_sets_def launched_def)
  show "fst (dump_with_plugins env s) = Raised e"
    by (simp add: dump_with_plugins_def a launch_plugins_eq Let_def g')
  show "filter uses_group (new_events s (snd (dump_with_plugins env s))) = []"
    by (simp add: dump_with_plugins_def a launch_plugins_eq Let_def g' new_events_def es emit_def)
qed

lemma dump_with_plugins_returned:
  assumes pkd: "pkd_running env \<or> pkd_started env"
    and g: "resolve_group env (plugin_group_sets env s) = Returned g"
  shows "fst (dump_with_plugins env s) = Returned ()"
    and "filter is_assembly (new_events s (snd (dump_with_plugins env s))) =
           Detach (next_sid s)
           # ExpDecrypt (script s) (exp_root env (script s)) (exp_path_for_group env (script s) g)
           # concat (map (plugin_teardown (exp_root env (script s)) (exp_path_for_group env (script s) g))
                          (set_iter env (set (launched env s))))
           @ [ExpArchive (script s) (exp_root env (script s)) (exp_path_for_group env (script s) g)
                (exp_decrypt env (script s) (exp_root env (script s)) (exp_path_for_group env (script s) g)
                 @ concat (map (\<lambda>p. exp_decrypt env (pl_script p) (exp_root env (script s))
                                        (exp_path_for_group env (script s) g))
                               (set_iter env (set (launched env s)))))
                (dict_set (opt s) ''dest'' (JStr (exp_path_for_group env (script s) g)))]"
    and "filter uses_group (new_events s (snd (dump_with_plugins env s))) \<noteq> []"
    and "ExpPathForGroup (script s) g \<in> set (new_events s (snd (dump_with_plugins env s)))"
proof -
  from attach_pkd_ok [OF pkd, of s] obtain es where
    es: "filter is_assembly es = []" "filter uses_group es = []"
    and a: "attach_pkd env s =
             (Returned (next_sid s), s\<lparr>trace := trace s @ es, next_sid := Suc (next_sid s)\<rparr>)"
    by blast
  have g': "resolve_group env
      (map (\<lambda>p. set (exp_groups env (pl_script p)))
         (launch_records env (script s) (Suc (next_sid s)) (plugins s))) = Returned g"
    using g by (simp add: plugin_group_sets_def launched_def)
  show "fst (dump_with_plugins env s) = Returned ()"
    by (simp add: dump_with_plugins_def a launch_plugins_eq decrypt_plugins_eq Let_def g')
  show "filter is_assembly (new_events s (snd (dump_with_plugins env s))) =
           Detach (next_sid s)
           # ExpDecrypt (script s) (exp_root env (script s)) (exp_path_for_group env (script s) g)
           # concat (map (plugin_teardown (exp_root env (script s)) (exp_path_for_group env (script s) g))
                          (set_iter env (set (launched env s))))
           @ [ExpArchive (script s) (exp_root env (script s)) (exp_path_for_group env (script s) g)
                (exp_decrypt env (script s) (exp_root env (script s)) (exp_path_for_group env (script s) g)
                 @ concat (map (\<lambda>p. exp_decrypt env (pl_script p) (exp_root env (script s))
                                        (exp_path_for_group env (script s) g))
                               (set_iter env (set (launched env s)))))
                (dict_set (opt s) ''dest'' (JStr (exp_path_for_group env (script s) g)))]"
    by (simp add: dump_with_plugins_def a launch_plugins_eq decrypt_plugins_eq Let_def g'
        new_events_def es emit_def launched_def)
  show "filter uses_group (new_events s (snd (dump_with_plugins env s))) \<noteq> []"
    by (simp add: dump_with_plugins_def a launch_plugins_eq decrypt_plugins_eq Let_def g'
        new_events_def es emit_def launched_def)
  show "ExpPathForGroup (script s) g \<in> set (new_events s (snd (dump_with_plugins env s)))"
    by (simp add: dump_with_plugins_def a launch_plugins_eq decrypt_plugins_eq Let_def g'
        new_events_def es emit_def launched_def)
qed


lemma launch_plugins_keeps:
  "session (snd (snd (launch_plugins env ids sp gs s))) = session s"
  "\<exists>es. trace (snd (snd (launch_plugins env ids sp gs s))) = trace s @ es"
  by (simp_all add: launch_plugins_eq)

lemma decrypt_plugins_keeps:
  "session (snd (decrypt_plugins env r c ps d s)) = session s"
  "\<exists>es. trace (snd (decrypt_plugins env r c ps d s)) = trace s @ es"
  by (simp_all add: decrypt_plugins_eq)

lemma attach_pkd_keeps:
  "session (snd (attach_pkd env s)) = session s"
  "\<exists>es. trace (snd (attach_pkd env s)) = trace s @ es"
  by (simp_all add: attach_pkd_def Let_def emit_def)

lemma dump_with_plugins_session: "session (snd (dump_with_plugins env s)) = session s"
proof (cases "attach_pkd env s")
  case (Pair r s1)
  have s1: "session s1 = session s" using attach_pkd_keeps(1) [of env s] Pair by simp
  show ?thesis
  proof (cases r)
    case (Raised e)
    then show ?thesis by (simp add: dump_with_plugins_def Pair s1)
  next
    case (Returned pkd)
    then show ?thesis
      by (simp add: dump_with_plugins_def Pair s1 launch_plugins_eq decrypt_plugins_eq Let_def
          split: res.split)
  qed
qed

lemma dump_with_plugins_ext: "\<exists>es. trace (snd (dump_with_plugins env s)) = trace s @ es"
proof (cases "attach_pkd env s")
  case (Pair r s1)
  obtain es1 where s1: "trace s1 = trace s @ es1" using attach_pkd_keeps(2) [of env s] Pair by auto
  show ?thesis
  proof (cases r)
    case (Raised e)
    then show ?thesis by (simp add: dump_with_plugins_def Pair s1)
  next
    case (Returned pkd)
    then show ?thesis
      by (simp add: dump_with_plugins_def Pair s1 launch_plugins_eq decrypt_plugins_eq Let_def
          split: res.split)
  qed
qed

lemma dump_attach_keeps:
  "session (snd (dump_attach env s)) = session s"
  by (simp add: dump_attach_def on_console_def device_attach_def Let_def emit_def split: prod.split)

lemma dump_session: "session (snd (dump env s)) = session s"
proof (cases "dump_attach env s")
  case (Pair sess s1)
  have s1: "session s1 = session s" using dump_attach_keeps [of env s] Pair by simp
  show ?thesis
  proof (cases "exp_plugins env sess = []")
    case True
    then show ?thesis by (simp add: dump_def Pair Let_def s1)
  next
    case False
    let ?s7 = "(emit (ExpPlugins sess) (emit (Load sess) (emit (OnMessageHandler sess)
        (emit (SetLogHandler sess) (emit (CreateScript sess (agent_source s1)) s1)))))
          \<lparr>plugins := exp_plugins env sess, script := sess\<rparr>"
    have "session (snd (dump_with_plugins env ?s7)) = session s"
      by (simp add: dump_with_plugins_session s1)
    then show ?thesis
      using False by (simp add: dump_def Pair Let_def split: prod.split res.split) auto
  qed
qed

lemma dump_attach_prefix:
  "\<exists>es. trace (snd (dump env s)) = trace (snd (dump_attach env s)) @ es"
proof (cases "dump_attach env s")
  case (Pair sess s1)
  show ?thesis
  proof (cases "exp_plugins env sess = []")
    case True
    then show ?thesis by (simp add: dump_def Pair Let_def)
  next
    case False
    let ?s7 = "(emit (ExpPlugins sess) (emit (Load sess) (emit (OnMessageHandler sess)
        (emit (SetLogHandler sess) (emit (CreateScript sess (agent_source s1)) s1)))))
          \<lparr>plugins := exp_plugins env sess, script := sess\<rparr>"
    obtain es where "trace (snd (dump_with_plugins env ?s7)) = trace ?s7 @ es"
      using dump_with_plugins_ext by blast
    then show ?thesis
      using False by (simp add: dump_def Pair Let_def split: prod.split res.split) auto
  qed
qed

section \<open>The plugin path\<close>

lemma launched_nonempty: "plugins s \<noteq> [] \<Longrightarrow> plugin_group_sets env s \<noteq> []"
  by (cases "plugins s") (simp_all add: plugin_group_sets_def launched_def)

text \<open>
  Claim C1, as the code has it. When pkd can be attached and there is at least one plugin,
  \<open>dump_with_plugins\<close> returns exactly when the plugins' group sets have a common element and
  the element that \<open>pop\<close> takes from the intersection is a non-empty string; that element is
  then the group passed to path_for_group, whatever the number of common groups. When the
  element taken is the empty string the run stops with the RuntimeError of the source. When
  the intersection is empty the run stops with an exception before any path_for_group,
  decrypt or archive call, so no group is chosen.
\<close>

theorem group_resolution:
  assumes "pkd_running env \<or> pkd_started env" and "plugins s \<noteq> []"
  shows "((fst (dump_with_plugins env s) = Returned ()) =
            (common_groups env s \<noteq> {} \<and> set_pop env (common_groups env s) \<noteq> [])) \<and>
         (common_groups env s \<noteq> {} \<and> set_pop env (common_groups env s) \<noteq> [] \<longrightarrow>
            ExpPathForGroup (script s) (set_pop env (common_groups env s))
              \<in> set (new_events s (snd (dump_with_plugins env s)))) \<and>
         (common_groups env s \<noteq> {} \<and> set_pop env (common_groups env s) = [] \<longrightarrow>
            fst (dump_with_plugins env s) = Raised (RuntimeError
              ''App includes extension, but no valid app group found. Please file a bug to Github'')) \<and>
         (common_groups env s = {} \<longrightarrow>
            (\<exists>e. fst (dump_with_plugins env s) = Raised e) \<and>
            filter uses_group (new_events s (snd (dump_with_plugins env s))) = [])"
proof -
  note rg = resolve_group_cases [OF launched_nonempty [OF assms(2)], of env env]
  show ?thesis
  proof (cases "common_groups env s = {}")
    case True
    then have r: "resolve_group env (plugin_group_sets env s) = Raised (KeyError (JStr ''pop from an empty set''))"
      using rg by (simp add: common_groups_def)
    show ?thesis
      using True dump_with_plugins_raised [OF assms(1) r] by simp
  next
    case False
    show ?thesis
    proof (cases "set_pop env (common_groups env s) = []")
      case True
      with False have r: "resolve_group env (plugin_group_sets env s) = Raised (RuntimeError
              ''App includes extension, but no valid app group found. Please file a bug to Github'')"
        using rg by (simp add: common_groups_def)
      show ?thesis
        using True False dump_with_plugins_raised [OF assms(1) r] by simp
    next
      case nonempty: False
      with False have r: "resolve_group env (plugin_group_sets env s) =
          Returned (set_pop env (common_groups env s))"
        using rg by (simp add: common_groups_def)
      show ?thesis
        using nonempty False dump_with_plugins_returned(1,4) [OF assms(1) r] by simp
    qed
  qed
qed

lemma archive_of_assembly: "filter is_archive (filter is_assembly xs) = filter is_archive xs"
proof (induction xs)
  case Nil
  show ?case by simp
next
  case (Cons x xs)
  then show ?case by (cases x) simp_all
qed

text \<open>
  Claim C2, as the code has it. When the group is resolved and the loop over the set
  \<open>spawned\<close> visits each of its elements once, the plugin path detaches pkd, calls decrypt on
  the host script, then for each plugin in the order of that visit calls decrypt on its
  script, detaches its session and kills its process, and at the end calls archive once, on
  the host script, with the host manifest followed by the plugins' manifests in the order of
  the visit and with the container stored under dest in the options. The plugins visited are
  the plugins launched, one record for each identifier of \<open>plugins\<close>, but the order of the
  visit is that of the set, not the launch order.
\<close>

theorem plugin_path_assembly:
  assumes "pkd_running env \<or> pkd_started env"
    and "resolve_group env (plugin_group_sets env s) = Returned g"
    and "set (set_iter env (set (launched env s))) = set (launched env s)"
    and "distinct (set_iter env (set (launched env s)))"
  shows "let root = exp_root env (script s);
             container = exp_path_for_group env (script s) g;
             visited = set_iter env (set (launched env s));
             es = new_events s (snd (dump_with_plugins env s))
         in fst (dump_with_plugins env s) = Returned () \<and>
            mset visited = mset (launched env s) \<and>
            map pl_id (launched env s) = plugins s \<and>
            filter is_assembly es =
              Detach (next_sid s) # ExpDecrypt (script s) root container
              # concat (map (plugin_teardown root container) visited)
              @ [ExpArchive (script s) root container
                   (exp_decrypt env (script s) root container
                    @ concat (map (\<lambda>p. exp_decrypt env (pl_script p) root container) visited))
                   (dict_set (opt s) ''dest'' (JStr container))] \<and>
            length (filter is_archive es) = 1"
proof -
  have ids: "map pl_id (launch_records env scr n ids) = ids" for scr n ids
    by (induction ids arbitrary: n) simp_all
  have m: "mset (set_iter env (set (launched env s))) = mset (launched env s)"
    using assms(3,4) launch_records_distinct [of env "script s" "Suc (next_sid s)" "plugins s"]
    by (simp add: launched_def set_eq_iff_mset_eq_distinct)
  note r = dump_with_plugins_returned(1,2) [OF assms(1,2)]
  have "length (filter is_archive (filter is_assembly (new_events s (snd (dump_with_plugins env s))))) = 1"
    unfolding r(2) by simp
  then have a: "length (filter is_archive (new_events s (snd (dump_with_plugins env s)))) = 1"
    by (simp only: archive_of_assembly)
  show ?thesis
    unfolding Let_def using r m a by (simp add: launched_def ids)
qed

lemmas ex_defs = ex_app_def ex_state_def ex_env_def ex_plugin_x_def ex_plugin_y_def
  ex_plugin_state_def ex_env_yx_def ex_env_two_groups_def ex_env_disjoint_def IPADump_init_def

lemma ex_launched:
  "launched ex_env_yx ex_plugin_state = [ex_plugin_x, ex_plugin_y]"
  "launched ex_env_two_groups ex_plugin_state = [ex_plugin_x, ex_plugin_y]"
  "launched ex_env_disjoint ex_plugin_state = [ex_plugin_x, ex_plugin_y]"
  by (simp_all add: launched_def ex_defs)

lemma ex_common:
  "common_groups ex_env_yx ex_plugin_state = {''group.a''}"
  "common_groups ex_env_two_groups ex_plugin_state = {''group.a'', ''group.b''}"
  "common_groups ex_env_disjoint ex_plugin_state = {}"
  by (simp_all add: common_groups_def plugin_group_sets_def ex_launched)
     (simp_all add: ex_defs)

lemma ex_resolve:
  "resolve_group ex_env_yx (plugin_group_sets ex_env_yx ex_plugin_state) = Returned ''group.a''"
  "resolve_group ex_env_two_groups (plugin_group_sets ex_env_two_groups ex_plugin_state) = Returned ''group.a''"
  "resolve_group ex_env_disjoint (plugin_group_sets ex_env_disjoint ex_plugin_state) =
     Raised (KeyError (JStr ''pop from an empty set''))"
  by (simp_all add: resolve_group_def set_intersection_def plugin_group_sets_def ex_launched)
     (simp_all add: ex_defs)

lemma ex_pkd:
  "pkd_running ex_env_yx" "pkd_running ex_env_two_groups" "pkd_running ex_env_disjoint"
  by (simp_all add: ex_defs)

text \<open>
  Claim C1 as stated fails: two plugins that share the two groups group.a and group.b. The
  intersection has two elements, and the run goes on with the one that \<open>pop\<close> takes.
\<close>

theorem group_resolution_counterexample:
  "fst (dump_with_plugins ex_env_two_groups ex_plugin_state) = Returned () \<and>
   ExpPathForGroup 0 ''group.a''
     \<in> set (new_events ex_plugin_state (snd (dump_with_plugins ex_env_two_groups ex_plugin_state))) \<and>
   card (common_groups ex_env_two_groups ex_plugin_state) = 2"
proof -
  have p: "pkd_running ex_env_two_groups \<or> pkd_started ex_env_two_groups"
    by (simp add: ex_pkd)
  have s: "script ex_plugin_state = 0" by (simp add: ex_defs)
  show ?thesis
    using dump_with_plugins_returned(1,4) [OF p ex_resolve(2)]
    by (simp add: ex_common s)
qed

text \<open>
  With no common group, the exception comes from \<open>pop\<close> on the empty set, ahead of the check
  that raises the RuntimeError.
\<close>

lemma disjoint_groups_raise_KeyError:
  "fst (dump_with_plugins ex_env_disjoint ex_plugin_state) =
     Raised (KeyError (JStr ''pop from an empty set''))"
proof -
  have p: "pkd_running ex_env_disjoint \<or> pkd_started ex_env_disjoint"
    by (simp add: ex_pkd)
  show ?thesis by (rule dump_with_plugins_raised(1) [OF p ex_resolve(3)])
qed

text \<open>Claim C1 on the example runs: one common group, and no common group.\<close>

theorem group_resolution_witness:
  "(pkd_running ex_env_yx \<or> pkd_started ex_env_yx) \<and> plugins ex_plugin_state \<noteq> [] \<and>
   common_groups ex_env_yx ex_plugin_state \<noteq> {} \<and>
   set_pop ex_env_yx (common_groups ex_env_yx ex_plugin_state) \<noteq> [] \<and>
   fst (dump_with_plugins ex_env_yx ex_plugin_state) = Returned () \<and>
   common_groups ex_env_disjoint ex_plugin_state = {} \<and>
   (\<exists>e. fst (dump_with_plugins ex_env_disjoint ex_plugin_state) = Raised e) \<and>
   filter uses_group
     (new_events ex_plugin_state (snd (dump_with_plugins ex_env_disjoint ex_plugin_state))) = []"
proof -
  have p: "pkd_running ex_env_yx \<or> pkd_started ex_env_yx"
    and p': "pkd_running ex_env_disjoint \<or> pkd_started ex_env_disjoint"
    by (simp_all add: ex_pkd)
  have q: "plugins ex_plugin_state \<noteq> []" by (simp add: ex_defs)
  have c: "common_groups ex_env_yx ex_plugin_state \<noteq> {}"
    "set_pop ex_env_yx (common_groups ex_env_yx ex_plugin_state) \<noteq> []"
    by (simp_all add: ex_common) (simp add: ex_defs)
  show ?thesis
    using group_resolution [OF p q] group_resolution [OF p' q] p q c ex_common(3)
    by simp
qed

lemma decrypt_of_assembly: "filter is_decrypt (filter is_assembly xs) = filter is_decrypt xs"
proof (induction xs)
  case Nil
  show ?case by simp
next
  case (Cons x xs)
  then show ?case by (cases x) simp_all
qed

lemma ex_iter:
  "set_iter ex_env_yx (set (launched ex_env_yx ex_plugin_state)) = [ex_plugin_y, ex_plugin_x]"
  by (simp add: ex_defs)

text \<open>
  Claim C2 as stated fails: ext.x is launched before ext.y (scripts 2 and 3), the set yields
  ext.y first, and decrypt is called on script 3 before script 2.
\<close>

theorem plugin_decrypt_order_counterexample:
  "map pl_script (launched ex_env_yx ex_plugin_state) = [2, 3] \<and>
   set (set_iter ex_env_yx (set (launched ex_env_yx ex_plugin_state)))
     = set (launched ex_env_yx ex_plugin_state) \<and>
   distinct (set_iter ex_env_yx (set (launched ex_env_yx ex_plugin_state))) \<and>
   filter is_decrypt (new_events ex_plugin_state (snd (dump_with_plugins ex_env_yx ex_plugin_state)))
     = [ExpDecrypt 0 ''/app'' ''/shared/group.a'',
        ExpDecrypt 3 ''/app'' ''/shared/group.a'',
        ExpDecrypt 2 ''/app'' ''/shared/group.a'']"
proof -
  have p: "pkd_running ex_env_yx \<or> pkd_started ex_env_yx"
    by (simp add: ex_pkd)
  have e: "script ex_plugin_state = 0" "exp_root ex_env_yx 0 = ''/app''"
    "exp_path_for_group ex_env_yx 0 ''group.a'' = ''/shared/group.a''"
    by (simp_all add: ex_defs)
  have "filter is_decrypt (filter is_assembly
          (new_events ex_plugin_state (snd (dump_with_plugins ex_env_yx ex_plugin_state))))
     = [ExpDecrypt 0 ''/app'' ''/shared/group.a'',
        ExpDecrypt 3 ''/app'' ''/shared/group.a'',
        ExpDecrypt 2 ''/app'' ''/shared/group.a'']"
    unfolding dump_with_plugins_returned(2) [OF p ex_resolve(1)] ex_iter e
    by (simp add: plugin_teardown_def ex_plugin_x_def ex_plugin_y_def)
  then have d: "filter is_decrypt
          (new_events ex_plugin_state (snd (dump_with_plugins ex_env_yx ex_plugin_state)))
     = [ExpDecrypt 0 ''/app'' ''/shared/group.a'',
        ExpDecrypt 3 ''/app'' ''/shared/group.a'',
        ExpDecrypt 2 ''/app'' ''/shared/group.a'']"
    by (simp only: decrypt_of_assembly)
  have l: "map pl_script (launched ex_env_yx ex_plugin_state) = [2, 3]"
    by (simp add: ex_launched ex_plugin_x_def ex_plugin_y_def)
  have i: "set (set_iter ex_env_yx (set (launched ex_env_yx ex_plugin_state)))
     = set (launched ex_env_yx ex_plugin_state)"
    "distinct (set_iter ex_env_yx (set (launched ex_env_yx ex_plugin_state)))"
    unfolding ex_iter by (auto simp: ex_launched ex_plugin_x_def ex_plugin_y_def)
  show ?thesis using d l i by simp
qed

text \<open>Claim C2 on the example run with two plugins.\<close>

theorem plugin_path_assembly_witness:
  "(pkd_running ex_env_yx \<or> pkd_started ex_env_yx) \<and>
   resolve_group ex_env_yx (plugin_group_sets ex_env_yx ex_plugin_state) = Returned ''group.a'' \<and>
   set (set_iter ex_env_yx (set (launched ex_env_yx ex_plugin_state)))
     = set (launched ex_env_yx ex_plugin_state) \<and>
   distinct (set_iter ex_env_yx (set (launched ex_env_yx ex_plugin_state))) \<and>
   fst (dump_with_plugins ex_env_yx ex_plugin_state) = Returned () \<and>
   length (filter is_archive
     (new_events ex_plugin_state (snd (dump_with_plugins ex_env_yx ex_plugin_state)))) = 1"
proof -
  have p: "pkd_running ex_env_yx \<or> pkd_started ex_env_yx"
    by (simp add: ex_pkd)
  have i: "set (set_iter ex_env_yx (set (launched ex_env_yx ex_plugin_state)))
     = set (launched ex_env_yx ex_plugin_state)"
    "distinct (set_iter ex_env_yx (set (launched ex_env_yx ex_plugin_state)))"
    unfolding ex_iter by (auto simp: ex_launched ex_plugin_x_def ex_plugin_y_def)
  show ?thesis
    using plugin_path_assembly [OF p ex_resolve(1) i] p ex_resolve(1) i
    by (simp add: Let_def)
qed

section \<open>The primary session and the path without plugins\<close>

lemma dump_attach_events:
  "fst (dump_attach env s) = next_sid s"
  "filter (\<lambda>e. \<not> is_print e) (new_events s (snd (dump_attach env s))) =
     (if app_pid (app s) = 0
      then [GetFrontmost, Spawn (app_identifier (app s)),
            Attach (dev_spawn env (app_identifier (app s))) (next_sid s),
            Resume (dev_spawn env (app_identifier (app s)))]
      else if dev_frontmost env = None \<or> dev_frontmost env = Some (app_pid (app s))
      then [GetFrontmost, Attach (app_pid (app s)) (next_sid s)]
      else [GetFrontmost, Kill (app_pid (app s)), Spawn (app_identifier (app s)),
            Attach (dev_spawn env (app_identifier (app s))) (next_sid s),
            Resume (dev_spawn env (app_identifier (app s)))])"
  by (auto simp: dump_attach_def on_console_def device_attach_def emit_def new_events_def Let_def)

text \<open>
  Claim C7. The calls to the device that establish the primary session, prints left out:
  when the application runs with pid \<open>p\<close> and another application is frontmost, kill \<open>p\<close>,
  spawn, attach, resume; when it does not run, spawn, attach, resume; when it runs and no
  other application is frontmost, attach to \<open>p\<close> alone. There is at most one kill, and
  \<open>dump\<close> continues from there.
\<close>

theorem session_establishment:
  "let pid = app_pid (app s); ident = app_identifier (app s); n = next_sid s;
       es = filter (\<lambda>e. \<not> is_print e) (new_events s (snd (dump_attach env s)))
   in (pid \<noteq> 0 \<and> (\<exists>q. dev_frontmost env = Some q \<and> q \<noteq> pid) \<longrightarrow>
         es = [GetFrontmost, Kill pid, Spawn ident, Attach (dev_spawn env ident) n,
               Resume (dev_spawn env ident)]) \<and>
      (pid = 0 \<longrightarrow>
         es = [GetFrontmost, Spawn ident, Attach (dev_spawn env ident) n,
               Resume (dev_spawn env ident)]) \<and>
      (pid \<noteq> 0 \<and> (dev_frontmost env = None \<or> dev_frontmost env = Some pid) \<longrightarrow>
         es = [GetFrontmost, Attach pid n]) \<and>
      length (filter is_kill es) \<le> 1 \<and>
      fst (dump_attach env s) = n \<and>
      (\<exists>rest. trace (snd (dump env s)) = trace (snd (dump_attach env s)) @ rest)"
  unfolding Let_def dump_attach_events using dump_attach_prefix [of env s] by auto

lemma dump_attach_state:
  "\<exists>es. filter is_decrypt es = [] \<and> filter is_archive es = [] \<and>
        filter is_plugin_call es = [] \<and> length (filter is_attach es) = 1 \<and>
        snd (dump_attach env s) = s\<lparr>trace := trace s @ es, next_sid := Suc (next_sid s)\<rparr>"
proof -
  let ?c = "if \<not> verbose s then [] else [Print [PStr ''[info]'', PStr ''attaching to target'']]"
  let ?i = "app_identifier (app s)"
  let ?es = "?c @ (if app_pid (app s) = 0
      then [GetFrontmost, Spawn ?i, Attach (dev_spawn env ?i) (next_sid s), Resume (dev_spawn env ?i)]
      else if dev_frontmost env = None \<or> dev_frontmost env = Some (app_pid (app s))
      then [GetFrontmost, Attach (app_pid (app s)) (next_sid s)]
      else [GetFrontmost, Kill (app_pid (app s)), Spawn ?i,
            Attach (dev_spawn env ?i) (next_sid s), Resume (dev_spawn env ?i)])"
  show ?thesis
    by (rule exI [of _ ?es])
       (auto simp: dump_attach_def on_console_def device_attach_def emit_def Let_def)
qed

text \<open>
  Claim C6. When plugins() returns the empty list, \<open>dump\<close> returns after exactly one decrypt
  and one archive call, both on the host script, attaches exactly one session, and never
  calls launch, groups or path_for_group.
\<close>

theorem no_plugin_path:
  assumes "exp_plugins env (next_sid s) = []"
  shows "let es = new_events s (snd (dump env s)); n = next_sid s in
           fst (dump env s) = Returned () \<and>
           filter is_decrypt es = [ExpDecrypt n (exp_root env n) (exp_data env n @ ''/tmp'')] \<and>
           length (filter is_decrypt es) = 1 \<and>
           filter is_archive es =
             [ExpArchive n (exp_root env n) (exp_data env n @ ''/tmp'')
                (exp_decrypt env n (exp_root env n) (exp_data env n @ ''/tmp'')) (opt s)] \<and>
           length (filter is_archive es) = 1 \<and>
           length (filter is_attach es) = 1 \<and>
           filter is_plugin_call es = []"
proof -
  obtain es where es: "filter is_decrypt es = []" "filter is_archive es = []"
      "filter is_plugin_call es = []" "length (filter is_attach es) = 1"
    and a: "snd (dump_attach env s) = s\<lparr>trace := trace s @ es, next_sid := Suc (next_sid s)\<rparr>"
    using dump_attach_state by blast
  have d: "dump_attach env s = (next_sid s, s\<lparr>trace := trace s @ es, next_sid := Suc (next_sid s)\<rparr>)"
    using a dump_attach_events(1) [of env s] by (simp add: prod_eq_iff)
  show ?thesis
    using assms es by (simp add: dump_def d Let_def emit_def new_events_def)
qed

text \<open>
  Claim C8 against the code. The attribute \<open>session\<close> is \<open>None\<close> after \<open>__init__\<close>, and neither
  \<open>dump\<close> nor any message handler assigns it. A message with subject finish therefore prints
  bye and raises AttributeError at \<open>self.session.detach()\<close>: the session is not detached and
  \<open>sys.exit(0)\<close> is not reached.
\<close>

theorem finish_raises_AttributeError:
  "session (IPADump_init a out v keep_watch fs) = None \<and>
   session (snd (dump env s)) = session s \<and>
   session (snd (deliver ms s)) = session s \<and>
   (session s = None \<longrightarrow>
      on_message finish_msg data s = (Raised AttributeError, emit (Print [PStr ''bye'']) s))"
  by (simp add: dump_session deliver_session IPADump_init_def on_message_def finish_msg_def
      send_msg_def dict_get_def emit_def)

section \<open>The download protocol\<close>









text \<open>
  Claim C9. For a hashable stream key without a task, the handlers for data, end and error
  raise KeyError on that key, and \<open>on_message\<close> does not catch it; with a task for the key,
  none of them raises KeyError.
\<close>

theorem missing_task_raises_KeyError:
  assumes "dict_key key = Some k"
  shows "(tasks s k = None \<longrightarrow>
            on_download_data key data s = (Raised (KeyError key), s) \<and>
            on_download_finish key s = (Raised (KeyError key), s) \<and>
            on_download_error key s = (Raised (KeyError key), s) \<and>
            on_message (data_msg key) data s = (Raised (KeyError key), s) \<and>
            on_message (end_msg key) data s = (Raised (KeyError key), s) \<and>
            on_message (error_msg key) data s = (Raised (KeyError key), s)) \<and>
         (tasks s k \<noteq> None \<longrightarrow>
            (\<forall>x. fst (on_download_data key data s) \<noteq> Raised (KeyError x)) \<and>
            fst (on_download_finish key s) = Returned () \<and>
            fst (on_download_error key s) = Returned ())"
proof -
  have a: "on_download_data key data s = (Raised (KeyError key), s) \<and>
           on_download_finish key s = (Raised (KeyError key), s) \<and>
           on_download_error key s = (Raised (KeyError key), s)" if "tasks s k = None"
    using assms that
    by (simp add: on_download_data_def on_download_finish_def on_download_error_def
        close_session_def tasks_lookup_def)
  have b: "(\<forall>x. fst (on_download_data key data s) \<noteq> Raised (KeyError x)) \<and>
            fst (on_download_finish key s) = Returned () \<and>
            fst (on_download_error key s) = Returned ()" if "tasks s k \<noteq> None"
    using assms that
    by (auto simp: on_download_data_def on_download_finish_def on_download_error_def
        close_session_def tasks_lookup_def Task_write_def Task_finish_def Task_close_def Let_def
        split: option.splits)
  show ?thesis
    using a b on_message_missing [OF assms, of s data] by blast
qed


section \<open>The claims on the example runs\<close>

lemma ex_state_fields:
  "ipa_name ex_state = ''Example.ipa''" "next_fid ex_state = 0" "next_sid ex_state = 0"
  "session ex_state = None" "tasks ex_state = Map.empty" "app ex_state = ex_app"
  "verbose ex_state = False"
  by (simp_all add: ex_state_def IPADump_init_def)

lemma ex_started_eq:
  "ex_started = ex_state\<lparr>trace := trace ex_state @ [FOpen 0 ''Example.ipa''],
        files := (files ex_state)(''Example.ipa'' \<mapsto> []),
        next_fid := Suc 0,
        tasks := (tasks ex_state)(JStr ''s1'' \<mapsto> \<lparr>t_session = JStr ''s1'', t_path = ''Example.ipa'',
           t_size = JInt 1024,
           t_file = \<lparr>fid = 0, fpath = ''Example.ipa'', fpos = 0, fclosed = False\<rparr>\<rparr>)\<rparr>"
  unfolding ex_started_def
  by (simp add: on_message_start [of "JStr ''s1''" "JStr ''s1''"] ex_state_fields)






text \<open>Claim C6 on the example run without plugins.\<close>

theorem no_plugin_path_witness:
  "exp_plugins ex_env (next_sid ex_state) = [] \<and>
   fst (dump ex_env ex_state) = Returned () \<and>
   filter is_decrypt (new_events ex_state (snd (dump ex_env ex_state)))
     = [ExpDecrypt 0 ''/app'' ''/data/tmp''] \<and>
   length (filter is_archive (new_events ex_state (snd (dump ex_env ex_state)))) = 1 \<and>
   length (filter is_attach (new_events ex_state (snd (dump ex_env ex_state)))) = 1 \<and>
   filter is_plugin_call (new_events ex_state (snd (dump ex_env ex_state))) = []"
proof -
  have h: "exp_plugins ex_env (next_sid ex_state) = []" by (simp add: ex_env_def)
  have e: "exp_root ex_env 0 = ''/app''" "exp_data ex_env 0 = ''/data''" by (simp_all add: ex_env_def)
  show ?thesis
    using no_plugin_path [OF h] h by (simp add: Let_def ex_state_fields e)
qed

text \<open>
  Claim C7 on three runs: application 41 behind application 7, application not running,
  application 41 frontmost.
\<close>

theorem session_establishment_witness:
  "app_pid (app ex_state) \<noteq> 0 \<and>
   (\<exists>q. dev_frontmost ex_env = Some q \<and> q \<noteq> app_pid (app ex_state)) \<and>
   filter (\<lambda>e. \<not> is_print e) (new_events ex_state (snd (dump_attach ex_env ex_state)))
     = [GetFrontmost, Kill 41, Spawn ''com.example.app'', Attach 100 0, Resume 100] \<and>
   app_pid (app (ex_state\<lparr>app := ex_app\<lparr>app_pid := 0\<rparr>\<rparr>)) = 0 \<and>
   filter (\<lambda>e. \<not> is_print e)
     (new_events (ex_state\<lparr>app := ex_app\<lparr>app_pid := 0\<rparr>\<rparr>)
        (snd (dump_attach ex_env (ex_state\<lparr>app := ex_app\<lparr>app_pid := 0\<rparr>\<rparr>))))
     = [GetFrontmost, Spawn ''com.example.app'', Attach 100 0, Resume 100] \<and>
   dev_frontmost (ex_env\<lparr>dev_frontmost := Some 41\<rparr>) = Some (app_pid (app ex_state)) \<and>
   filter (\<lambda>e. \<not> is_print e)
     (new_events ex_state (snd (dump_attach (ex_env\<lparr>dev_frontmost := Some 41\<rparr>) ex_state)))
     = [GetFrontmost, Attach 41 0]"
proof -
  show ?thesis
    using session_establishment [of ex_state ex_env]
      session_establishment [of "ex_state\<lparr>app := ex_app\<lparr>app_pid := 0\<rparr>\<rparr>" ex_env]
      session_establishment [of ex_state "ex_env\<lparr>dev_frontmost := Some 41\<rparr>"]
    by (simp add: Let_def ex_state_fields ex_app_def ex_env_def)
qed

text \<open>Claim C8 on the example object, before and after \<open>dump\<close>.\<close>

theorem finish_raises_AttributeError_witness:
  "session ex_state = None \<and>
   on_message finish_msg None ex_state = (Raised AttributeError, emit (Print [PStr ''bye'']) ex_state) \<and>
   session (snd (dump ex_env ex_state)) = None \<and>
   fst (on_message finish_msg None (snd (dump ex_env ex_state))) = Raised AttributeError"
proof -
  have h: "session ex_state = None" by (simp add: ex_state_fields)
  have d: "session (snd (dump ex_env ex_state)) = None"
    using finish_raises_AttributeError [of ex_app None False False Map.empty ex_env ex_state "[]" None] h
    by simp
  show ?thesis
    using finish_raises_AttributeError [of ex_app None False False Map.empty ex_env ex_state "[]" None]
      finish_raises_AttributeError [of ex_app None False False Map.empty ex_env
        "snd (dump ex_env ex_state)" "[]" None] h d
    by simp
qed

text \<open>Claim C9 on stream s1, before and after its start.\<close>

theorem missing_task_raises_KeyError_witness:
  "dict_key (JStr ''s1'') = Some (JStr ''s1'') \<and>
   tasks ex_state (JStr ''s1'') = None \<and>
   on_message (data_msg (JStr ''s1'')) (Some [1, 2]) ex_state = (Raised (KeyError (JStr ''s1'')), ex_state) \<and>
   on_message (end_msg (JStr ''s1'')) (Some [1, 2]) ex_state = (Raised (KeyError (JStr ''s1'')), ex_state) \<and>
   on_message (error_msg (JStr ''s1'')) (Some [1, 2]) ex_state = (Raised (KeyError (JStr ''s1'')), ex_state) \<and>
   tasks ex_started (JStr ''s1'') \<noteq> None \<and>
   fst (on_download_error (JStr ''s1'') ex_started) = Returned ()"
proof -
  have h: "dict_key (JStr ''s1'') = Some (JStr ''s1'')" by simp
  have a: "tasks ex_state (JStr ''s1'') = None" by (simp add: ex_state_fields)
  have b: "tasks ex_started (JStr ''s1'') \<noteq> None" by (simp add: ex_started_eq)
  show ?thesis
    using missing_task_raises_KeyError [OF h, of ex_state "Some [1, 2]"]
      missing_task_raises_KeyError [OF h, of ex_started "Some [1, 2]"] h a b
    by blast
qed


end
